theory Spec2Isabelle
  imports Complex_Main "HOL-Library.FSet"
begin

section \<open>Data model of \<open>cogs/music.py\<close>\<close>

text \<open>
  The platform objects the cog reads. A member and a channel are compared by their id, as
  the platform library's \<open>__eq__\<close> does; the other fields are what the cog reads off them.
\<close>

record member =
  mid :: nat
  display_name :: string

record channel =
  cid :: nat
  cname :: string
  voice_members :: "member list"

definition member_eq :: "member \<Rightarrow> member \<Rightarrow> bool" where
  "member_eq a b = (mid a = mid b)"

definition channel_eq :: "channel option \<Rightarrow> channel option \<Rightarrow> bool" where
  "channel_eq a b =
     (case a of
        None \<Rightarrow> (case b of None \<Rightarrow> True | Some _ \<Rightarrow> False)
      | Some x \<Rightarrow> (case b of None \<Rightarrow> False | Some y \<Rightarrow> cid x = cid y))"

text \<open>The voice client of a server: the cog reads its channel only.\<close>

record voice_client =
  vc_channel :: channel

text \<open>
  The stream player of the platform library, as far as the cog uses it: \<open>is_done()\<close> reads
  \<open>ended\<close>, \<open>stop()\<close> sets it, \<open>pause()\<close> and \<open>resume()\<close> toggle \<open>paused\<close>, and
  \<open>volume\<close> is the gain.
\<close>

record player =
  ended :: bool
  paused :: bool
  gain :: rat

definition player_stop :: "player \<Rightarrow> player" where
  "player_stop p = p\<lparr>ended := True\<rparr>"

definition player_pause :: "player \<Rightarrow> player" where
  "player_pause p = p\<lparr>paused := True\<rparr>"

definition player_resume :: "player \<Rightarrow> player" where
  "player_resume p = p\<lparr>paused := False\<rparr>"

text \<open>
  A queue entry. Its class lives in \<open>voice_utilities\<close>, which is not among the sources, so
  the attributes the cog reads are fields: \<open>label\<close> is what \<open>str(entry)\<close> gives, and
  \<open>remaining\<close>, \<open>progress\<close> and \<open>length_e\<close> hold the values the clock-dependent
  properties have when a command reads them (\<open>None\<close> and \<open>0\<close> are both falsy). The
  \<open>player\<close> attribute is \<open>None\<close> until the audio task sets it.
\<close>

record entry =
  requester :: member
  label :: string
  duration :: int
  remaining :: int
  progress :: "int option"
  length_e :: "int option"
  filename :: "string option"
  player :: "player option"
  start_time :: "nat option"

text \<open>
  The playlist, also of \<open>voice_utilities\<close>: the cog reads \<open>entries\<close> and \<open>full\<close> and
  calls \<open>add_entry\<close> and \<open>get_next_entry\<close>.
\<close>

record playlist =
  entries :: "entry list"
  capacity :: nat

record voice_state =
  current :: "entry option"
  voice :: "voice_client option"
  play_next_song :: bool
  songs :: playlist
  required_skips :: int
  skip_votes :: "nat fset"
  volume :: int

datatype py_error =
    AttributeError
  | IndexError
  | UnboundLocalError
  | WrongEntryTypeError
  | ExtractionError string
  | TimeoutError
  | ConnectionClosed
  | InvalidArgument

text \<open>What a command does to the outside, in order.\<close>

datatype event =
    Say string
  | SendMessage string
  | AddEntry string
  | ExtractInfo string
  | JoinVoiceChannel nat
  | Disconnect nat

section \<open>\<open>VoiceState\<close>\<close>

text \<open>\<open>VoiceState.__init__\<close>; the queue's bound is the playlist's own.\<close>

definition VoiceState_init :: "nat \<Rightarrow> voice_state" where
  "VoiceState_init cap =
     \<lparr>current = None, voice = None, play_next_song = False,
      songs = \<lparr>entries = [], capacity = cap\<rparr>,
      required_skips = 0, skip_votes = {||}, volume = 50\<rparr>"

text \<open>\<open>player.is_done()\<close> on the attribute's value: \<open>None\<close> has no such method.\<close>

definition is_done :: "player option \<Rightarrow> py_error + bool" where
  "is_done p = (case p of None \<Rightarrow> Inl AttributeError | Some pl \<Rightarrow> Inr (ended pl))"

definition is_playing :: "voice_state \<Rightarrow> bool" where
  "is_playing s =
     (if voice s = None \<or> current s = None then False
      else (case current s of
              None \<Rightarrow> False
            | Some cur \<Rightarrow>
                (case is_done (player cur) of
                   Inr d \<Rightarrow> \<not> d
                 | Inl _ \<Rightarrow> False)))"

text \<open>\<open>self.player.stop()\<close>, on the player of the current entry.\<close>

definition stop_player :: "voice_state \<Rightarrow> voice_state" where
  "stop_player s =
     (case current s of
        None \<Rightarrow> s
      | Some cur \<Rightarrow> s\<lparr>current := Some (cur\<lparr>player := map_option player_stop (player cur)\<rparr>)\<rparr>)"

definition VoiceState_skip :: "voice_state \<Rightarrow> voice_state" where
  "VoiceState_skip s =
     (let s1 = s\<lparr>skip_votes := {||}\<rparr>
      in if is_playing s1 then stop_player s1 else s1)"

section \<open>\<open>Music\<close>\<close>

text \<open>
  The cog: a dictionary from server id to voice state. \<open>queue_limit\<close> is the bound a new
  playlist gets.
\<close>

record music =
  voice_states :: "nat \<rightharpoonup> voice_state"
  queue_limit :: nat

definition get_voice_state :: "music \<Rightarrow> nat \<Rightarrow> voice_state \<times> music" where
  "get_voice_state m sid =
     (case voice_states m sid of
        None \<Rightarrow>
          (let state = VoiceState_init (queue_limit m)
           in (state, m\<lparr>voice_states := (voice_states m)(sid \<mapsto> state)\<rparr>))
      | Some state \<Rightarrow> (state, m))"

text \<open>
  The state objects are shared with the dictionary, so a command's writes to \<open>state\<close>
  are writes to the dictionary's value.
\<close>

definition put_voice_state :: "music \<Rightarrow> nat \<Rightarrow> voice_state \<Rightarrow> music" where
  "put_voice_state m sid state = m\<lparr>voice_states := (voice_states m)(sid \<mapsto> state)\<rparr>"

text \<open>
  \<open>math.ceil((num_members + 1) / 3)\<close>: the true division is exact on the rationals
  (the float quotient has the same ceiling for every count below \<open>2 ^ 53\<close>).
\<close>

definition quota :: "nat \<Rightarrow> int" where
  "quota num_members = \<lceil>(of_nat num_members + 1) / (3 :: rat)\<rceil>"

text \<open>
  \<open>on_voice_state_update\<close>: \<open>before_ch\<close> and \<open>after_ch\<close> are the voice channels of the
  member before and after the change.
\<close>

definition on_voice_state_update ::
  "music \<Rightarrow> nat \<Rightarrow> channel option \<Rightarrow> channel option \<Rightarrow> music" where
  "on_voice_state_update m sid before_ch after_ch =
     (let (state, m1) = get_voice_state m sid
      in case voice state of
           None \<Rightarrow> m1
         | Some v \<Rightarrow>
             (let voice_channel = vc_channel v
              in if \<not> channel_eq (Some voice_channel) before_ch
                    \<and> \<not> channel_eq (Some voice_channel) after_ch
                 then m1
                 else (let num_members = length (voice_members voice_channel)
                       in put_voice_state m1 sid
                            (state\<lparr>required_skips := quota num_members\<rparr>))))"

section \<open>Text\<close>

text \<open>\<open>str\<close> of an integer, \<open>sep.join\<close>, and the line feed.\<close>

definition digit_char :: "nat \<Rightarrow> char" where
  "digit_char d = char_of (48 + d)"

fun str_nat :: "nat \<Rightarrow> string" where
  "str_nat n = (if n < 10 then [digit_char n] else str_nat (n div 10) @ [digit_char (n mod 10)])"

declare str_nat.simps [simp del]

definition str_int :: "int \<Rightarrow> string" where
  "str_int i = (if i < 0 then CHR ''-'' # str_nat (nat (- i)) else str_nat (nat i))"

fun join :: "string \<Rightarrow> string list \<Rightarrow> string" where
  "join sep [] = []"
| "join sep [x] = x"
| "join sep (x # y # ys) = x @ sep @ join sep (y # ys)"

definition nl :: char where
  "nl = CHR 0x0A"

text \<open>Truth value of a number that may be \<open>None\<close>.\<close>

definition truthy :: "int option \<Rightarrow> bool" where
  "truthy v = (case v of None \<Rightarrow> False | Some n \<Rightarrow> n \<noteq> 0)"

text \<open>\<open>"{0[0]}m {0[1]}s".format(divmod(round(n, 0), 60))\<close> on an integer.\<close>

definition fmt_min_sec :: "int \<Rightarrow> string" where
  "fmt_min_sec n = str_int (n div 60) @ ''m '' @ str_int (n mod 60) @ ''s''"


section \<open>Commands on the playing state\<close>

text \<open>
  A command gives the cog after it, what it did to the outside, and the exception
  it raised, if any.
\<close>

type_synonym outcome = "music \<times> event list \<times> py_error option"

definition Music_progress :: "music \<Rightarrow> nat \<Rightarrow> outcome" where
  "Music_progress m sid =
     (let (state, m1) = get_voice_state m sid
      in if \<not> is_playing state then (m1, [Say ''Not playing anything.''], None)
         else (case current state of
                 None \<Rightarrow> (m1, [], Some AttributeError)
               | Some cur \<Rightarrow>
                   (if \<not> truthy (progress cur) \<or> \<not> truthy (length_e cur)
                    then (m1, [Say ''Not playing anything.''], None)
                    else (case (progress cur, length_e cur) of
                            (Some p, Some l) \<Rightarrow>
                              (m1, [Say (''Current song progress: '' @ fmt_min_sec p @ ''/''
                                         @ fmt_min_sec l)], None)
                          | _ \<Rightarrow> (m1, [Say ''Not playing anything.''], None)))))"

text \<open>\<open>player.volume = g\<close>, \<open>player.pause()\<close>, \<open>player.resume()\<close> on \<open>state.player\<close>.\<close>

definition on_player :: "(player \<Rightarrow> player) \<Rightarrow> voice_state \<Rightarrow> voice_state" where
  "on_player f s =
     (case current s of
        None \<Rightarrow> s
      | Some cur \<Rightarrow> s\<lparr>current := Some (cur\<lparr>player := map_option f (player cur)\<rparr>)\<rparr>)"


definition Music_pause :: "music \<Rightarrow> nat \<Rightarrow> outcome" where
  "Music_pause m sid =
     (let (state, m1) = get_voice_state m sid
      in if is_playing state
         then (put_voice_state m1 sid (on_player player_pause state), [], None)
         else (m1, [], None))"

definition Music_resume :: "music \<Rightarrow> nat \<Rightarrow> outcome" where
  "Music_resume m sid =
     (let (state, m1) = get_voice_state m sid
      in if is_playing state
         then (put_voice_state m1 sid (on_player player_resume state), [], None)
         else (m1, [], None))"

text \<open>The loop of \<open>eta\<close> over the queue: the running count, and whether the author was found.\<close>

fun eta_loop :: "member \<Rightarrow> entry list \<Rightarrow> int \<Rightarrow> int \<times> bool" where
  "eta_loop author [] count = (count, False)"
| "eta_loop author (song # queue) count =
     (if member_eq (requester song) author then (count, True)
      else eta_loop author queue (count + duration song))"

definition Music_eta :: "music \<Rightarrow> nat \<Rightarrow> member \<Rightarrow> outcome" where
  "Music_eta m sid author =
     (let (state, m1) = get_voice_state m sid
      in if \<not> is_playing state then (m1, [Say ''Not playing any music right now...''], None)
         else (let queue = entries (songs state)
               in if length queue = 0 then (m1, [Say ''Nothing currently in the queue''], None)
                  else (case current state of
                          None \<Rightarrow> (m1, [], Some AttributeError)
                        | Some cur \<Rightarrow>
                            (let (count, found) = eta_loop author queue (remaining cur)
                             in if count = duration cur
                                then (m1, [Say ''You are next in the queue!''], None)
                                else if \<not> found
                                then (m1, [Say ''You are not in the queue!''], None)
                                else (m1, [Say (''ETA till your next play is: ''
                                                @ fmt_min_sec count)], None)))))"

definition Music_queue :: "music \<Rightarrow> nat \<Rightarrow> outcome" where
  "Music_queue m sid =
     (let (state, m1) = get_voice_state m sid
      in if \<not> is_playing state then (m1, [Say ''Not playing any music right now...''], None)
         else (let queue = entries (songs state);
                   fmt = (if length queue = 0 then ''Nothing currently in the queue''
                          else join [nl, nl] (map label queue))
               in (m1, [Say (''Current songs in the queue:```'' @ [nl] @ fmt @ ''```'')], None)))"

definition Music_queuelength :: "music \<Rightarrow> nat \<Rightarrow> outcome" where
  "Music_queuelength m sid =
     (let (state, m1) = get_voice_state m sid
      in (m1, [Say (''There are a total of '' @ str_int (int (length (entries (songs state))))
                    @ '' songs in the queue'')], None))"

definition Music_skip :: "music \<Rightarrow> nat \<Rightarrow> member \<Rightarrow> outcome" where
  "Music_skip m sid voter =
     (let (state, m1) = get_voice_state m sid
      in if \<not> is_playing state then (m1, [Say ''Not playing any music right now...''], None)
         else (case current state of
                 None \<Rightarrow> (m1, [], Some AttributeError)
               | Some cur \<Rightarrow>
                   (if member_eq voter (requester cur)
                    then (put_voice_state m1 sid (VoiceState_skip state),
                          [Say ''Requester requested skipping song...''], None)
                    else if mid voter |\<notin>| skip_votes state
                    then (let state1 = state\<lparr>skip_votes := finsert (mid voter) (skip_votes state)\<rparr>;
                              total_votes = int (fcard (skip_votes state1))
                          in if total_votes \<ge> required_skips state1
                             then (put_voice_state m1 sid (VoiceState_skip state1),
                                   [Say ''Skip vote passed, skipping song...''], None)
                             else (put_voice_state m1 sid state1,
                                   [Say (''Skip vote added, currently at ['' @ str_int total_votes
                                         @ ''/'' @ str_int (required_skips state1) @ '']'')],
                                   None))
                    else (m1, [Say ''You have already voted to skip this song.''], None))))"

definition Music_modskip :: "music \<Rightarrow> nat \<Rightarrow> outcome" where
  "Music_modskip m sid =
     (let (state, m1) = get_voice_state m sid
      in if \<not> is_playing state then (m1, [Say ''Not playing any music right now...''], None)
         else (put_voice_state m1 sid (VoiceState_skip state),
               [Say ''Song has just been skipped.''], None))"

definition Music_playing :: "music \<Rightarrow> nat \<Rightarrow> outcome" where
  "Music_playing m sid =
     (let (state, m1) = get_voice_state m sid
      in if \<not> is_playing state then (m1, [Say ''Not playing anything.''], None)
         else (case current state of
                 None \<Rightarrow> (m1, [], Some AttributeError)
               | Some cur \<Rightarrow>
                   (let skip_count = int (fcard (skip_votes state))
                    in (m1, [Say (''Now playing '' @ label cur @ '' [skips: '' @ str_int skip_count
                                  @ ''/'' @ str_int (required_skips state) @ '']'')], None))))"

section \<open>Joining a voice channel\<close>

text \<open>
  What a command meets outside the cog: the voice client the platform has for the
  server, what joining a channel gives, what the playlist's resolver makes of a song, and
  what a search gives. A search result is kept as far as \<open>play\<close> reads it: the value of
  \<open>info.get('entries', [])[0]['webpage_url']\<close>, or the exception reading it raises
  (\<open>IndexError\<close> when the search found nothing).
\<close>

type_synonym info = "py_error + string"

record world =
  voice_client_in :: "voice_client option"
  join_voice_channel :: "channel \<Rightarrow> py_error + voice_client"
  resolve :: "string \<Rightarrow> py_error + entry"
  extract_info :: "string \<Rightarrow> py_error + info"

text \<open>The invoking message.\<close>

record ctx =
  server :: nat
  author :: member
  author_voice_channel :: "channel option"
  me_voice_channel :: "channel option"

definition create_voice_client ::
  "world \<Rightarrow> music \<Rightarrow> nat \<Rightarrow> channel \<Rightarrow> music \<times> event list \<times> (py_error + bool)" where
  "create_voice_client w m sid ch =
     (let (state, m1) = get_voice_state m sid
      in case voice_client_in w of
           None \<Rightarrow>
             (case join_voice_channel w ch of
                Inl e \<Rightarrow> (m1, [JoinVoiceChannel (cid ch)], Inl e)
              | Inr vc \<Rightarrow> (put_voice_state m1 sid (state\<lparr>voice := Some vc\<rparr>),
                           [JoinVoiceChannel (cid ch)], Inr True))
         | Some v \<Rightarrow>
             (if channel_eq (Some (vc_channel v)) (Some ch)
              then (put_voice_state m1 sid (state\<lparr>voice := Some v\<rparr>), [], Inr True)
              else (case join_voice_channel w ch of
                      Inl e \<Rightarrow> (m1, [Disconnect (cid (vc_channel v)), JoinVoiceChannel (cid ch)],
                                Inl e)
                    | Inr vc \<Rightarrow> (put_voice_state m1 sid (state\<lparr>voice := Some vc\<rparr>),
                                 [Disconnect (cid (vc_channel v)), JoinVoiceChannel (cid ch)],
                                 Inr True))))"

definition remove_voice_client :: "world \<Rightarrow> music \<Rightarrow> nat \<Rightarrow> music \<times> event list" where
  "remove_voice_client w m sid =
     (let (state, m1) = get_voice_state m sid
      in (m1,
          (case voice_client_in w of None \<Rightarrow> [] | Some v \<Rightarrow> [Disconnect (cid (vc_channel v))])
          @ (case voice state of None \<Rightarrow> [] | Some v \<Rightarrow> [Disconnect (cid (vc_channel v))])))"

definition failed_to_connect :: string where
  "failed_to_connect =
     ''I failed to connect! This can sometimes be caused by your server region being far away.''
     @ '' Otherwise this is an issue on Discord's end, causing the connect to timeout!''"

definition Music_summon ::
  "world \<Rightarrow> music \<Rightarrow> ctx \<Rightarrow> music \<times> event list \<times> (py_error + bool)" where
  "Music_summon w m c =
     (case author_voice_channel c of
        None \<Rightarrow> (m, [Say ''You are not in a voice channel.''], Inr False)
      | Some summoned_channel \<Rightarrow>
          (let (m1, ev1, r) = create_voice_client w m (server c) summoned_channel
           in case r of
                Inl e \<Rightarrow>
                  (if e = TimeoutError \<or> e = ConnectionClosed
                   then (let (m2, ev2) = remove_voice_client w m1 (server c)
                         in (m2, ev1 @ [Say failed_to_connect] @ ev2, Inr False))
                   else (m1, ev1, Inl e))
              | Inr success \<Rightarrow>
                  (if success
                   then (m1, ev1 @ [Say (''Ready to play audio in '' @ cname summoned_channel)],
                         Inr success)
                   else (m1, ev1, Inr success))))"

section \<open>\<open>play\<close>\<close>

text \<open>\<open>needle in s\<close> on strings.\<close>

fun contains :: "string \<Rightarrow> string \<Rightarrow> bool" where
  "contains needle [] = (needle = [])"
| "contains needle (c # s) = (take (length needle) (c # s) = needle \<or> contains needle s)"

text \<open>\<open>s.split("\n\n")\<close>: \<open>cur\<close> is the piece being read.\<close>

fun split_nlnl :: "string \<Rightarrow> string \<Rightarrow> string list" where
  "split_nlnl cur [] = [cur]"
| "split_nlnl cur [c] = [cur @ [c]]"
| "split_nlnl cur (c # d # s) =
     (if c = nl \<and> d = nl then cur # split_nlnl [] s else split_nlnl (cur @ [c]) (d # s))"

text \<open>
  \<open>s.split()\<close>: the pieces between runs of white space, none of them empty. The white
  space is that of the code points below 256.
\<close>

definition is_space :: "char \<Rightarrow> bool" where
  "is_space c = (of_char c \<in> {9, 10, 11, 12, 13, 28, 29, 30, 31, 32, 133, 160 :: nat})"

fun split_ws :: "string \<Rightarrow> string \<Rightarrow> string list" where
  "split_ws cur [] = (if cur = [] then [] else [cur])"
| "split_ws cur (c # s) =
     (if is_space c then (if cur = [] then split_ws [] s else cur # split_ws [] s)
      else split_ws (cur @ [c]) s)"

text \<open>
  \<open>error = str(e).split("\n\n")[1]\<close>, then \<open>error = " ".join(error.split()[1:])\<close>:
  the index raises when the text has no blank line.
\<close>

definition error_text :: "string \<Rightarrow> py_error + string" where
  "error_text t =
     (case split_nlnl [] t of
        _ # x # _ \<Rightarrow> Inr (join '' '' (tl (split_ws [] x)))
      | _ \<Rightarrow> Inl IndexError)"

text \<open>The limit check of the outer handler.\<close>

definition limit_2000 :: "string \<Rightarrow> string" where
  "limit_2000 error = (if length error \<ge> 2000 then take 1996 error @ ''...'' else error)"

text \<open>
  Modelled from the spec: \<open>Playlist.full\<close> and \<open>Playlist.add_entry\<close>, which are in
  \<open>voice_utilities\<close>. The queue is full when its size is its capacity; adding resolves the
  song, appends the entry for the requester and gives the entry's position, counted from 1.
\<close>

definition full :: "playlist \<Rightarrow> bool" where
  "full pl = (length (entries pl) = capacity pl)"

definition add_entry ::
  "world \<Rightarrow> playlist \<Rightarrow> string \<Rightarrow> member \<Rightarrow> py_error + (entry \<times> nat \<times> playlist)" where
  "add_entry w pl song who =
     (case resolve w song of
        Inl e \<Rightarrow> Inl e
      | Inr found \<Rightarrow>
          (let e = found\<lparr>requester := who\<rparr>;
               pl1 = pl\<lparr>entries := entries pl @ [e]\<rparr>
           in Inr (e, length (entries pl1), pl1)))"

definition soundcloud_reply :: string where
  "soundcloud_reply =
     ''Soundcloud has changed the way that they allow downloads, and it now requires ''
     @ ''authorization. Unfortunately, I currently have no way to download from soundcloud''"

definition not_downloadable :: string where
  "not_downloadable =
     ''Sorry but I couldn't download that! Either you provided a playlist, a streamed link, or ''
     @ ''a page that is not supported to download.''"

text \<open>
  The handler of \<open>WrongEntryTypeError\<close>: the song was a search. An exception raised in a
  handler is not caught by the handlers beside it. After the second
  \<open>WrongEntryTypeError\<close> the command goes on to the last line, where \<open>_entry\<close> was never
  bound.
\<close>

definition play_search :: "world \<Rightarrow> music \<Rightarrow> ctx \<Rightarrow> voice_state \<Rightarrow> string \<Rightarrow> outcome" where
  "play_search w m c state song =
     (case extract_info w song of
        Inl e \<Rightarrow> (m, [ExtractInfo song], Some e)
      | Inr result \<Rightarrow>
          (case result of
             Inl IndexError \<Rightarrow>
               (m, [ExtractInfo song, SendMessage (''No results found for '' @ song @ ''!'')], None)
           | Inl (ExtractionError t) \<Rightarrow>
               (case error_text t of
                  Inl e \<Rightarrow> (m, [ExtractInfo song], Some e)
                | Inr error \<Rightarrow> (m, [ExtractInfo song, SendMessage error], None))
           | Inl e \<Rightarrow> (m, [ExtractInfo song], Some e)
           | Inr url \<Rightarrow>
               (case add_entry w (songs state) url (author c) of
                  Inr (e, position, pl) \<Rightarrow>
                    (put_voice_state m (server c) (state\<lparr>songs := pl\<rparr>),
                     [ExtractInfo song, AddEntry url, Say (''Enqueued '' @ label e)], None)
                | Inl WrongEntryTypeError \<Rightarrow>
                    (m, [ExtractInfo song, AddEntry url, SendMessage not_downloadable],
                     Some UnboundLocalError)
                | Inl e \<Rightarrow> (m, [ExtractInfo song, AddEntry url], Some e))))"

text \<open>The \<open>try\<close> around the first \<open>add_entry\<close>, to the end of the command.\<close>

definition play_enqueue :: "world \<Rightarrow> music \<Rightarrow> ctx \<Rightarrow> voice_state \<Rightarrow> string \<Rightarrow> outcome" where
  "play_enqueue w m c state song =
     (case add_entry w (songs state) song (author c) of
        Inr (e, position, pl) \<Rightarrow>
          (put_voice_state m (server c) (state\<lparr>songs := pl\<rparr>),
           [AddEntry song, Say (''Enqueued '' @ label e)], None)
      | Inl WrongEntryTypeError \<Rightarrow>
          (let (m1, ev, err) = play_search w m c state song in (m1, AddEntry song # ev, err))
      | Inl (ExtractionError t) \<Rightarrow>
          (case error_text t of
             Inl e \<Rightarrow> (m, [AddEntry song], Some e)
           | Inr error \<Rightarrow> (m, [AddEntry song, SendMessage (limit_2000 error)], None))
      | Inl e \<Rightarrow> (m, [AddEntry song], Some e))"

definition queue_full_reply :: string where
  "queue_full_reply = ''The queue is currently full! You'll need to wait to add a new song''"

definition not_in_channel_reply :: string where
  "not_in_channel_reply =
     ''You are not currently in the channel; please join before trying to request a song.''"

text \<open>The checks after the voice connection is there, then the enqueueing.\<close>

definition play_checked :: "world \<Rightarrow> music \<Rightarrow> ctx \<Rightarrow> string \<Rightarrow> outcome" where
  "play_checked w m c song =
     (let (state, m1) = get_voice_state m (server c)
      in if full (songs state) then (m1, [Say queue_full_reply], None)
         else if \<not> channel_eq (me_voice_channel c) (author_voice_channel c)
         then (m1, [Say not_in_channel_reply], None)
         else play_enqueue w m1 c state (filter (\<lambda>ch. ch \<notin> set ''<>[]'') song))"

definition Music_play :: "world \<Rightarrow> music \<Rightarrow> ctx \<Rightarrow> string \<Rightarrow> outcome" where
  "Music_play w m c song =
     (if contains ''soundcloud.com'' song then (m, [Say soundcloud_reply], None)
      else (let (state, m1) = get_voice_state m (server c)
            in if voice state = None
               then (let (m2, ev, r) = Music_summon w m1 c
                     in case r of
                          Inl e \<Rightarrow> (m2, ev, Some e)
                        | Inr success \<Rightarrow>
                            (if \<not> success then (m2, ev, None)
                             else (let (m3, ev3, err) = play_checked w m2 c song
                                   in (m3, ev @ ev3, err))))
               else play_checked w m1 c song))"

section \<open>Sample states\<close>


text \<open>
  Three members, a channel with two of them in it, and a guild that plays a track of
  100 seconds with 30 seconds left, requested by the first member, while the other two
  have a track of 40 and of 20 seconds in the queue.
\<close>

definition user_w :: member where
  "user_w = \<lparr>mid = 1, display_name = ''w''\<rparr>"

definition user_x :: member where
  "user_x = \<lparr>mid = 2, display_name = ''x''\<rparr>"

definition user_y :: member where
  "user_y = \<lparr>mid = 3, display_name = ''y''\<rparr>"

definition user_z :: member where
  "user_z = \<lparr>mid = 4, display_name = ''z''\<rparr>"

definition lounge :: channel where
  "lounge = \<lparr>cid = 7, cname = ''lounge'', voice_members = [user_w, user_x]\<rparr>"

definition track :: "member \<Rightarrow> string \<Rightarrow> int \<Rightarrow> entry" where
  "track who name secs =
     \<lparr>requester = who, label = name, duration = secs, remaining = secs, progress = None,
      length_e = Some secs, filename = None, player = None, start_time = None\<rparr>"

definition running :: player where
  "running = \<lparr>ended = False, paused = False, gain = 1 / 2\<rparr>"

definition playing_state :: voice_state where
  "playing_state =
     \<lparr>current = Some ((track user_w ''now'' 100)\<lparr>remaining := 30, player := Some running\<rparr>),
      voice = Some \<lparr>vc_channel = lounge\<rparr>,
      play_next_song = False,
      songs = \<lparr>entries = [track user_x ''A'' 40, track user_y ''B'' 20], capacity = 2\<rparr>,
      required_skips = 2, skip_votes = {||}, volume = 50\<rparr>"

definition playing_music :: music where
  "playing_music = \<lparr>voice_states = [1 \<mapsto> playing_state], queue_limit = 2\<rparr>"

text \<open>The same guild while the current entry has no player yet.\<close>

definition staged_state :: voice_state where
  "staged_state = playing_state\<lparr>current := Some (track user_w ''now'' 100)\<rparr>"

text \<open>
  The same guild with room in its queue, a request of a fourth member who sits in the
  bot's channel, and a resolver that takes every song for a search and fails while the
  result is read, with an error text of 2001 characters after its first word.
\<close>

definition roomy_state :: voice_state where
  "roomy_state = playing_state\<lparr>songs := (songs playing_state)\<lparr>capacity := 10\<rparr>\<rparr>"

definition roomy_music :: music where
  "roomy_music = \<lparr>voice_states = [1 \<mapsto> roomy_state], queue_limit = 10\<rparr>"

definition request :: ctx where
  "request = \<lparr>server = 1, author = user_z, author_voice_channel = Some lounge,
              me_voice_channel = Some lounge\<rparr>"

definition long_error :: string where
  "long_error = ''Could not extract'' @ [nl, nl] @ ''ERROR: '' @ replicate 2001 (CHR ''a'')"

definition search_world :: world where
  "search_world =
     \<lparr>voice_client_in = None,
      join_voice_channel = (\<lambda>ch. Inr \<lparr>vc_channel = ch\<rparr>),
      resolve = (\<lambda>song. Inl WrongEntryTypeError),
      extract_info = (\<lambda>song. Inr (Inl (ExtractionError long_error)))\<rparr>"

text \<open>The events that are an attempt to resolve a song.\<close>

fun resolving :: "event \<Rightarrow> bool" where
  "resolving (AddEntry _) = True"
| "resolving (ExtractInfo _) = True"
| "resolving _ = False"

section \<open>Properties\<close>

subsection \<open>Reading and writing the dictionary\<close>

lemma get_voice_state_Some:
  "voice_states m sid = Some state \<Longrightarrow> get_voice_state m sid = (state, m)"
  by (simp add: get_voice_state_def)


lemma get_voice_state_stored:
  "get_voice_state m sid = (state, m1) \<Longrightarrow> voice_states m1 sid = Some state"
  by (auto simp add: get_voice_state_def Let_def split: option.splits)

lemma is_playing_iff:
  "is_playing s \<longleftrightarrow>
     (\<exists>v cur p. voice s = Some v \<and> current s = Some cur \<and> player cur = Some p \<and> \<not> ended p)"
  by (auto simp add: is_playing_def is_done_def split: option.splits)

lemma VoiceState_skip_playing:
  assumes "is_playing s" and "current s = Some cur"
  shows "\<exists>p. player cur = Some p \<and> \<not> ended p \<and>
     VoiceState_skip s =
       s\<lparr>skip_votes := {||}, current := Some (cur\<lparr>player := Some (p\<lparr>ended := True\<rparr>)\<rparr>)\<rparr>"
  using assms
  by (auto simp add: is_playing_iff VoiceState_skip_def stop_player_def player_stop_def)

lemma playing_music_state: "voice_states playing_music 1 = Some playing_state"
  by (simp add: playing_music_def)

lemma playing_state_is_playing: "is_playing playing_state"
  by (simp add: is_playing_iff playing_state_def running_def)

subsection \<open>The skip quota\<close>

lemma quota_div: "quota n = (int n + 3) div 3"
proof -
  have "(of_nat n + 1) / (3::rat) = of_int (int n + 1) / of_int 3" by simp
  then have "quota n = - ((- (int n + 1)) div 3)"
    unfolding quota_def by (simp only: ceiling_divide_eq_div)
  then show ?thesis by presburger
qed

text \<open>
  C4. When a member's voice state changes and the bot's voice channel is the channel the
  member left or the one the member entered, \<open>required_skips\<close> becomes
  \<open>ceil((memberCount + 1) / 3)\<close> for the \<open>memberCount\<close> members of the bot's channel,
  and nothing else of the state changes; 2 members give 1, 5 give 2 and 8 give 3.
\<close>

theorem quota_recomputed:
  assumes "voice_states m sid = Some state" and "voice state = Some v"
    and "channel_eq (Some (vc_channel v)) before_ch \<or> channel_eq (Some (vc_channel v)) after_ch"
    and "length (voice_members (vc_channel v)) = memberCount"
  shows "voice_states (on_voice_state_update m sid before_ch after_ch) sid
           = Some (state\<lparr>required_skips := \<lceil>(of_nat memberCount + 1) / (3 :: rat)\<rceil>\<rparr>)
         \<and> \<lceil>(of_nat memberCount + 1) / (3 :: rat)\<rceil> = quota memberCount
         \<and> quota 2 = 1 \<and> quota 5 = 2 \<and> quota 8 = 3"
proof -
  have "on_voice_state_update m sid before_ch after_ch
          = put_voice_state m sid (state\<lparr>required_skips := quota memberCount\<rparr>)"
    using assms by (auto simp add: on_voice_state_update_def get_voice_state_Some)
  then have upd: "voice_states (on_voice_state_update m sid before_ch after_ch) sid
          = Some (state\<lparr>required_skips := quota memberCount\<rparr>)"
    by (simp add: put_voice_state_def)
  have e: "\<lceil>(of_nat memberCount + 1) / (3 :: rat)\<rceil> = quota memberCount"
    by (simp add: quota_def)
  have q: "quota 2 = 1 \<and> quota 5 = 2 \<and> quota 8 = 3"
    by (simp add: quota_div)
  show ?thesis
    unfolding e using upd q by simp
qed

theorem quota_recomputed_witness:
  "voice_states (on_voice_state_update playing_music 1 None (Some lounge)) 1
     = Some (playing_state\<lparr>required_skips := 1\<rparr>)"
proof -
  have v: "voice playing_state = Some \<lparr>vc_channel = lounge\<rparr>"
    by (simp add: playing_state_def)
  have c: "channel_eq (Some (vc_channel \<lparr>vc_channel = lounge\<rparr>)) None
           \<or> channel_eq (Some (vc_channel \<lparr>vc_channel = lounge\<rparr>)) (Some lounge)"
    by (simp add: channel_eq_def)
  have n: "length (voice_members (vc_channel \<lparr>vc_channel = lounge\<rparr>)) = 2"
    by (simp add: lounge_def)
  show ?thesis
    using quota_recomputed [OF playing_music_state v c n] by simp
qed

subsection \<open>Skipping\<close>

text \<open>
  C5. When a track is playing and the caller of \<open>skip\<close> is the requester of the current
  entry, the command says that the requester skips, empties the vote set and stops the
  current player, whatever the votes and the quota are; nothing else changes, so the
  caller is not among the voters afterwards.
\<close>

theorem requester_skip:
  assumes "voice_states m sid = Some state" and "is_playing state"
    and "current state = Some cur" and "member_eq voter (requester cur)"
  shows "\<exists>p. player cur = Some p \<and>
           Music_skip m sid voter =
             (m\<lparr>voice_states := (voice_states m)(sid \<mapsto>
                  state\<lparr>skip_votes := {||},
                        current := Some (cur\<lparr>player := Some (p\<lparr>ended := True\<rparr>)\<rparr>)\<rparr>)\<rparr>,
              [Say ''Requester requested skipping song...''], None)"
proof -
  from VoiceState_skip_playing [OF assms(2,3)] obtain p where
    p: "player cur = Some p"
    and sk: "VoiceState_skip state =
       state\<lparr>skip_votes := {||}, current := Some (cur\<lparr>player := Some (p\<lparr>ended := True\<rparr>)\<rparr>)\<rparr>"
    by blast
  have "Music_skip m sid voter = (put_voice_state m sid (VoiceState_skip state),
              [Say ''Requester requested skipping song...''], None)"
    using assms by (simp add: Music_skip_def get_voice_state_Some)
  with p sk show ?thesis by (simp add: put_voice_state_def)
qed

lemma playing_state_current:
  "current playing_state
     = Some ((track user_w ''now'' 100)\<lparr>remaining := 30, player := Some running\<rparr>)"
  by (simp add: playing_state_def)

theorem requester_skip_witness:
  "snd (Music_skip playing_music 1 user_w)
     = ([Say ''Requester requested skipping song...''], None)"
proof -
  have r: "member_eq user_w
             (requester ((track user_w ''now'' 100)\<lparr>remaining := 30, player := Some running\<rparr>))"
    by (simp add: member_eq_def track_def)
  show ?thesis
    using requester_skip [OF playing_music_state playing_state_is_playing
        playing_state_current r]
    by auto
qed

text \<open>
  C6. When a track is playing and the caller of \<open>skip\<close> is not the requester of the current
  entry: a caller whose id is in the vote set is told so and nothing changes; any other
  caller is inserted, and with the tally this gives (one more than before) the song is
  skipped (votes emptied, player stopped) when the tally is at least \<open>required_skips\<close>,
  and otherwise only the vote is kept and the tally reported.
\<close>

theorem vote_skip:
  assumes "voice_states m sid = Some state" and "is_playing state"
    and "current state = Some cur" and "\<not> member_eq voter (requester cur)"
  shows "(mid voter |\<in>| skip_votes state \<longrightarrow>
            Music_skip m sid voter = (m, [Say ''You have already voted to skip this song.''], None))
       \<and> (mid voter |\<notin>| skip_votes state
            \<and> int (fcard (skip_votes state)) + 1 \<ge> required_skips state \<longrightarrow>
            (\<exists>p. player cur = Some p \<and>
              Music_skip m sid voter =
                (m\<lparr>voice_states := (voice_states m)(sid \<mapsto>
                     state\<lparr>skip_votes := {||},
                           current := Some (cur\<lparr>player := Some (p\<lparr>ended := True\<rparr>)\<rparr>)\<rparr>)\<rparr>,
                 [Say ''Skip vote passed, skipping song...''], None)))
       \<and> (mid voter |\<notin>| skip_votes state
            \<and> int (fcard (skip_votes state)) + 1 < required_skips state \<longrightarrow>
            Music_skip m sid voter =
              (m\<lparr>voice_states := (voice_states m)(sid \<mapsto>
                   state\<lparr>skip_votes := finsert (mid voter) (skip_votes state)\<rparr>)\<rparr>,
               [Say (''Skip vote added, currently at [''
                     @ str_int (int (fcard (skip_votes state)) + 1)
                     @ ''/'' @ str_int (required_skips state) @ '']'')], None))"
proof (intro conjI impI)
  assume "mid voter |\<in>| skip_votes state"
  then show "Music_skip m sid voter
               = (m, [Say ''You have already voted to skip this song.''], None)"
    using assms by (simp add: Music_skip_def get_voice_state_Some)
next
  let ?s1 = "state\<lparr>skip_votes := finsert (mid voter) (skip_votes state)\<rparr>"
  assume a: "mid voter |\<notin>| skip_votes state
             \<and> int (fcard (skip_votes state)) + 1 \<ge> required_skips state"
  then have c: "int (fcard (finsert (mid voter) (skip_votes state)))
                  = int (fcard (skip_votes state)) + 1"
    by (simp add: fcard_finsert_disjoint)
  have pl: "is_playing ?s1" "current ?s1 = Some cur"
    using assms by (simp_all add: is_playing_iff)
  from VoiceState_skip_playing [OF pl] obtain p where
    p: "player cur = Some p"
    and sk: "VoiceState_skip ?s1 =
       ?s1\<lparr>skip_votes := {||}, current := Some (cur\<lparr>player := Some (p\<lparr>ended := True\<rparr>)\<rparr>)\<rparr>"
    by blast
  have "Music_skip m sid voter = (put_voice_state m sid (VoiceState_skip ?s1),
              [Say ''Skip vote passed, skipping song...''], None)"
    using assms a c by (simp add: Music_skip_def get_voice_state_Some Let_def)
  with p sk show "\<exists>p. player cur = Some p \<and>
              Music_skip m sid voter =
                (m\<lparr>voice_states := (voice_states m)(sid \<mapsto>
                     state\<lparr>skip_votes := {||},
                           current := Some (cur\<lparr>player := Some (p\<lparr>ended := True\<rparr>)\<rparr>)\<rparr>)\<rparr>,
                 [Say ''Skip vote passed, skipping song...''], None)"
    by (simp add: put_voice_state_def)
next
  assume a: "mid voter |\<notin>| skip_votes state
             \<and> int (fcard (skip_votes state)) + 1 < required_skips state"
  then have c: "int (fcard (finsert (mid voter) (skip_votes state)))
                  = int (fcard (skip_votes state)) + 1"
    by (simp add: fcard_finsert_disjoint)
  show "Music_skip m sid voter =
              (m\<lparr>voice_states := (voice_states m)(sid \<mapsto>
                   state\<lparr>skip_votes := finsert (mid voter) (skip_votes state)\<rparr>)\<rparr>,
               [Say (''Skip vote added, currently at [''
                     @ str_int (int (fcard (skip_votes state)) + 1)
                     @ ''/'' @ str_int (required_skips state) @ '']'')], None)"
    using assms a c
    by (simp add: Music_skip_def get_voice_state_Some Let_def put_voice_state_def)
qed

lemma str_int_1_2: "str_int 1 = ''1''" "str_int 2 = ''2''"
  by code_simp+

theorem vote_skip_witness:
  "Music_skip playing_music 1 user_x =
     (playing_music\<lparr>voice_states := (voice_states playing_music)(1 \<mapsto>
          playing_state\<lparr>skip_votes := {|2|}\<rparr>)\<rparr>,
      [Say ''Skip vote added, currently at [1/2]''], None)"
proof -
  have r: "\<not> member_eq user_x
             (requester ((track user_w ''now'' 100)\<lparr>remaining := 30, player := Some running\<rparr>))"
    by (simp add: member_eq_def track_def user_x_def user_w_def)
  have v: "skip_votes playing_state = {||}" "required_skips playing_state = 2" "mid user_x = 2"
    by (simp_all add: playing_state_def user_x_def)
  show ?thesis
    using vote_skip [OF playing_music_state playing_state_is_playing
        playing_state_current r]
    by (simp add: v fcard_fempty str_int_1_2)
qed

subsection \<open>Commands when nothing is playing\<close>

text \<open>
  C9. If the guild's state has no voice connection, or no current entry, or a current
  entry whose player is not set, then \<open>is_playing\<close> is false, and \<open>progress\<close>, \<open>eta\<close>,
  \<open>queue\<close>, \<open>skip\<close>, \<open>modskip\<close> and \<open>playing\<close> answer that nothing is playing while
  \<open>pause\<close> and \<open>resume\<close> do nothing; none of them raises or changes the state.
\<close>

theorem not_playing_commands:
  assumes "get_voice_state m sid = (state, m1)"
    and "voice state = None \<or> current state = None
         \<or> (\<exists>cur. current state = Some cur \<and> player cur = None)"
  shows "\<not> is_playing state
       \<and> Music_progress m sid = (m1, [Say ''Not playing anything.''], None)
       \<and> Music_eta m sid who = (m1, [Say ''Not playing any music right now...''], None)
       \<and> Music_queue m sid = (m1, [Say ''Not playing any music right now...''], None)
       \<and> Music_skip m sid who = (m1, [Say ''Not playing any music right now...''], None)
       \<and> Music_modskip m sid = (m1, [Say ''Not playing any music right now...''], None)
       \<and> Music_playing m sid = (m1, [Say ''Not playing anything.''], None)
       \<and> Music_pause m sid = (m1, [], None)
       \<and> Music_resume m sid = (m1, [], None)"
proof -
  have n: "\<not> is_playing state"
    using assms(2) by (auto simp add: is_playing_iff)
  show ?thesis
    using n assms(1)
    by (simp add: Music_progress_def Music_eta_def Music_queue_def Music_skip_def
        Music_modskip_def Music_playing_def Music_pause_def Music_resume_def)
qed

theorem not_playing_commands_witness:
  "\<not> is_playing staged_state
   \<and> Music_skip \<lparr>voice_states = [1 \<mapsto> staged_state], queue_limit = 2\<rparr> 1 user_x
       = (\<lparr>voice_states = [1 \<mapsto> staged_state], queue_limit = 2\<rparr>,
          [Say ''Not playing any music right now...''], None)
   \<and> Music_pause \<lparr>voice_states = [1 \<mapsto> staged_state], queue_limit = 2\<rparr> 1
       = (\<lparr>voice_states = [1 \<mapsto> staged_state], queue_limit = 2\<rparr>, [], None)"
proof -
  have g: "get_voice_state \<lparr>voice_states = [1 \<mapsto> staged_state], queue_limit = 2\<rparr> 1
             = (staged_state, \<lparr>voice_states = [1 \<mapsto> staged_state], queue_limit = 2\<rparr>)"
    by (simp add: get_voice_state_def)
  have h: "voice staged_state = None \<or> current staged_state = None
           \<or> (\<exists>cur. current staged_state = Some cur \<and> player cur = None)"
    by (simp add: staged_state_def track_def)
  show ?thesis
    using not_playing_commands [OF g h] by simp
qed

subsection \<open>The volume\<close>




subsection \<open>The estimate of \<open>eta\<close>\<close>

lemma eta_loop_count:
  "eta_loop who queue n =
     (n + sum_list (map duration (takeWhile (\<lambda>song. \<not> member_eq (requester song) who) queue)),
      \<exists>song \<in> set queue. member_eq (requester song) who)"
  by (induction queue arbitrary: n) auto

lemma str_int_eta: "str_int 0 = ''0''" "str_int 30 = ''30''" "str_int 10 = ''10''"
  by code_simp+

text \<open>
  C1, at the spec's own example with a current track of 100 seconds: 30 seconds remain
  and the queue is A (40 s, user X) then B (20 s, user Y). The count for X is the 30
  seconds that remain, and X owns the very next entry, but the command compares the count
  with the current entry's \<open>duration\<close>, 100, and so reports an estimate instead of
  telling X to be next.
\<close>

theorem eta_next_up_missed:
  "eta_loop user_x (entries (songs playing_state)) 30 = (30, True)
   \<and> Music_eta playing_music 1 user_x
       = (playing_music, [Say ''ETA till your next play is: 0m 30s''], None)"
proof -
  have g: "get_voice_state playing_music 1 = (playing_state, playing_music)"
    by (rule get_voice_state_Some [OF playing_music_state])
  have q: "entries (songs playing_state) = [track user_x ''A'' 40, track user_y ''B'' 20]"
    by (simp add: playing_state_def)
  have f: "fmt_min_sec 30 = ''0m 30s''"
    by (simp add: fmt_min_sec_def str_int_eta)
  show ?thesis
    unfolding Music_eta_def g
    by (simp add: playing_state_is_playing q playing_state_current f track_def member_eq_def)
qed

subsection \<open>\<open>play\<close>\<close>

text \<open>
  C10. A \<open>play\<close> whose song contains \<open>soundcloud.com\<close> says that soundcloud cannot be
  downloaded and returns: no song is resolved, and the cog, with every guild's state and
  queue, is as it was.
\<close>

theorem soundcloud_refused:
  assumes "contains ''soundcloud.com'' song"
  shows "Music_play w m c song = (m, [Say soundcloud_reply], None)"
  using assms by (simp add: Music_play_def)

theorem soundcloud_refused_witness:
  "Music_play search_world roomy_music request ''https://soundcloud.com/a''
     = (roomy_music, [Say soundcloud_reply], None)"
proof -
  have "contains ''soundcloud.com'' ''https://soundcloud.com/a''"
    by simp
  then show ?thesis
    by (rule soundcloud_refused)
qed

lemma limit_2000_length: "length (limit_2000 e) < 2000"
  by (simp add: limit_2000_def)






text \<open>
  The handler around the first \<open>add_entry\<close> keeps what it sends below 2000 characters.
\<close>

lemma enqueue_error_truncated:
  assumes "resolve w song = Inl (ExtractionError t)" and "error_text t = Inr error"
  shows "play_enqueue w m c state song = (m, [AddEntry song, SendMessage (limit_2000 error)], None)
         \<and> length (limit_2000 error) < 2000"
  using assms by (simp add: play_enqueue_def add_entry_def limit_2000_length)


lemma summon_keeps_songs:
  assumes "voice_states m (server c) = Some state"
    and "Music_summon w m c = (m2, ev, r)"
  shows "\<exists>state2. voice_states m2 (server c) = Some state2 \<and> songs state2 = songs state
           \<and> \<not> list_ex resolving ev"
  using assms
  unfolding Music_summon_def create_voice_client_def remove_voice_client_def
  by (auto simp add: get_voice_state_Some put_voice_state_def Let_def
      split: option.splits sum.splits if_splits prod.splits)

lemma play_checked_full:
  assumes "voice_states m sid = Some state" and "server c = sid" and "full (songs state)"
  shows "play_checked w m c song = (m, [Say queue_full_reply], None)"
  using assms by (simp add: play_checked_def get_voice_state_Some)

text \<open>
  C7, as the code has it. When the guild's queue is at capacity, a \<open>play\<close> resolves
  nothing and leaves the queue as it is. With a voice connection and a song without
  \<open>soundcloud.com\<close> it says that the queue is full and does nothing else. The two checks
  before the capacity check keep their own replies: the soundcloud reply, and, without a
  voice connection, the summon, after which the queue-full reply follows only if the
  summon succeeded.
\<close>

theorem full_queue_play:
  assumes "get_voice_state m (server c) = (state, m1)"
    and "full (songs state)"
    and "Music_play w m c song = (m', evs, err)"
  shows "\<not> list_ex resolving evs
       \<and> (m' = m \<or> (\<exists>state'. voice_states m' (server c) = Some state'
                          \<and> songs state' = songs state))
       \<and> (\<not> contains ''soundcloud.com'' song \<and> voice state \<noteq> None \<longrightarrow>
            m' = m1 \<and> evs = [Say queue_full_reply] \<and> err = None)
       \<and> (\<forall>m2 ev. \<not> contains ''soundcloud.com'' song \<and> voice state = None
              \<and> Music_summon w m1 c = (m2, ev, Inr True) \<longrightarrow>
            m' = m2 \<and> evs = ev @ [Say queue_full_reply] \<and> err = None)"
proof (cases "contains ''soundcloud.com'' song")
  case True
  then show ?thesis
    using assms(3) by (auto simp add: Music_play_def)
next
  case nsc: False
  have st: "voice_states m1 (server c) = Some state"
    using assms(1) by (rule get_voice_state_stored)
  show ?thesis
  proof (cases "voice state")
    case (Some v)
    have "Music_play w m c song = play_checked w m1 c song"
      using nsc Some assms(1) by (simp add: Music_play_def)
    also have "\<dots> = (m1, [Say queue_full_reply], None)"
      using st assms(2) by (simp add: play_checked_full)
    finally show ?thesis
      using assms(3) st Some by auto
  next
    case None
    obtain m2 ev r where su: "Music_summon w m1 c = (m2, ev, r)"
      by (cases "Music_summon w m1 c") auto
    from summon_keeps_songs [OF st su] obtain state2 where
      s2: "voice_states m2 (server c) = Some state2" "songs state2 = songs state"
      and ne: "\<not> list_ex resolving ev"
      by blast
    have f2: "play_checked w m2 c song = (m2, [Say queue_full_reply], None)"
      using s2 assms(2) by (simp add: play_checked_full)
    have "Music_play w m c song =
            (case r of Inl e \<Rightarrow> (m2, ev, Some e)
             | Inr success \<Rightarrow> if \<not> success then (m2, ev, None)
                              else (m2, ev @ [Say queue_full_reply], None))"
      using nsc None assms(1) su f2 by (simp add: Music_play_def split: sum.splits)
    then show ?thesis
      using assms(3) s2 ne None su by (auto split: sum.splits if_splits)
  qed
qed

lemma playing_state_full: "full (songs playing_state)"
  by (simp add: full_def playing_state_def)

theorem full_queue_play_witness:
  "Music_play search_world playing_music request ''some words''
     = (playing_music, [Say queue_full_reply], None)"
proof -
  obtain m' evs err where
    r: "Music_play search_world playing_music request ''some words'' = (m', evs, err)"
    by (cases "Music_play search_world playing_music request ''some words''") auto
  have g: "get_voice_state playing_music (server request) = (playing_state, playing_music)"
    by (rule get_voice_state_Some) (simp add: playing_music_def request_def)
  have n: "\<not> contains ''soundcloud.com'' ''some words''"
    by simp
  have v: "voice playing_state \<noteq> None"
    by (simp add: playing_state_def)
  show ?thesis
    using full_queue_play [OF g playing_state_full r] n v unfolding r by blast
qed

text \<open>
  The queue of the sample guild is at capacity, and a \<open>play\<close> of a soundcloud link is
  answered with the soundcloud reply, not with the queue-full reply.
\<close>

theorem full_queue_soundcloud_counterexample:
  "full (songs playing_state)
   \<and> Music_play search_world playing_music request ''https://soundcloud.com/a''
       = (playing_music, [Say soundcloud_reply], None)
   \<and> soundcloud_reply \<noteq> queue_full_reply"
proof -
  have c: "contains ''soundcloud.com'' ''https://soundcloud.com/a''"
    by simp
  have "Music_play search_world playing_music request ''https://soundcloud.com/a''
       = (playing_music, [Say soundcloud_reply], None)"
    unfolding Music_play_def using c by simp
  moreover have "soundcloud_reply \<noteq> queue_full_reply"
    by (simp add: soundcloud_reply_def queue_full_reply_def)
  ultimately show ?thesis
    using playing_state_full by simp
qed

end
